theory Spec2Isabelle
  imports Main "HOL-Library.AList"
begin

section \<open>Data model of \<open>agent_swarm.py\<close>\<close>

text \<open>
  The enum \<open>TaskStatus\<close> and the dataclasses \<open>Task\<close> and \<open>Message\<close>. The field \<open>id\<close> of
  \<open>Task\<close> is called \<open>id_task\<close> here, since \<open>id\<close> is the identity function of HOL.
  Timestamps are the strings \<open>datetime.now().isoformat()\<close> returns.
\<close>

datatype TaskStatus = PENDING | IN_PROGRESS | COMPLETED | BLOCKED

record Task =
  id_task :: string
  title :: string
  description :: string
  assigned_to :: "string option"
  status :: TaskStatus
  dependencies :: "string list"
  created_at :: string
  completed_at :: "string option"

record Message =
  from_agent :: string
  to_agent :: string
  content :: string
  timestamp :: string

text \<open>
  A Python \<open>dict\<close> keeps its keys in insertion order, and \<open>json.dump\<close>/\<open>json.load\<close> keep
  that order through the file. A dict is therefore an association list with distinct keys:
  \<open>d[k]\<close> is \<^term>\<open>map_of d k\<close>, \<open>k in d\<close> is \<^term>\<open>map_of d k \<noteq> None\<close>, \<open>d.items()\<close> is
  the list itself, and \<open>d[k] = v\<close> is \<^term>\<open>AList.update k v d\<close>, which replaces the value of
  an existing key where it stands and appends a new key at the end. The task objects are
  mutable and live in the dict, so an assignment to an attribute of \<open>tasks[k]\<close> is an
  update of the dict at \<open>k\<close>.
\<close>

type_synonym task_dict = "(string \<times> Task) list"


section \<open>JSON values and exceptions\<close>

text \<open>
  What \<open>json.load\<close> returns: \<open>None\<close>, a bool, a number, a string, a list or a dict with
  string keys (in the order of the document). Of a number no branch of the program reads
  more than its type, so integers stand for all numbers.
\<close>

datatype json = JNull | JBool bool | JNum int | JStr string | JArr "json list"
  | JObj "(string \<times> json) list"

text \<open>
  An exception is its class, with its text where the program gives it (\<open>ValueError\<close>
  raised by \<open>Group.__init__\<close>) and its key for a \<open>KeyError\<close>. No exception that leaves a
  method of this program is caught further up: \<open>main\<close> has no handler.

  A run of the model ends in a result, or in an exception that was raised and not
  caught, or at \<open>Untyped\<close>: the program goes on there with an object that has a field of
  another type than the dataclass declares (Python does not check the annotations), and
  the typed records of this model cannot follow it.
\<close>

datatype exn = ValueError "string option" | KeyError string | TypeError | AttributeError
  | UnicodeDecodeError | RecursionError | FileNotFoundError

datatype stop = Raised exn | Untyped

section \<open>The world outside the process\<close>

text \<open>
  A file of the state directory is absent; or it cannot be opened or read (\<open>OSError\<close>,
  with its text); or its bytes are not UTF-8 (\<open>json.load\<close> raises \<open>UnicodeDecodeError\<close>
  when it reads the file); or it is nested deeper than the interpreter's recursion limit
  (\<open>json.load\<close> raises \<open>RecursionError\<close>); or it is no JSON document
  (\<open>json.JSONDecodeError\<close>, with its text); or it holds a JSON document, given by the
  value \<open>json.load\<close> returns for it. Failing writes are outside this model (\<open>save_*\<close>
  prints and re-raises them).

  \<open>logs\<close> are the per-agent log files as lists of lines, \<open>stdout\<close> the lines printed,
  \<open>clock\<close> and \<open>ticks\<close> the readings of \<open>datetime.now()\<close>: the \<open>n\<close>-th reading of a run
  is \<open>clock n\<close>. \<open>tmux_installed\<close> says whether the \<open>tmux\<close> binary can be run. A tmux
  session is not there, or attached, or there but refusing \<open>send-keys\<close>; \<open>tmux_error\<close>
  is the text of the \<open>CalledProcessError\<close> of a failing \<open>send-keys\<close> (it shows the command
  line, hence the session and the message, and the exit status); \<open>tmux_keys\<close> are the
  keys sent.
\<close>

datatype file_state = Absent | Unreadable string | Undecodable | TooDeep | Corrupted string
  | Holds json

datatype tmux_session = NoSession | Attached | Broken

record world =
  tasks_file :: file_state
  messages_file :: file_state
  groups_file :: file_state
  logs :: "string \<Rightarrow> string list"
  stdout :: "string list"
  clock :: "nat \<Rightarrow> string"
  ticks :: nat
  tmux_installed :: bool
  tmux :: "string \<Rightarrow> tmux_session"
  tmux_error :: "string \<Rightarrow> string \<Rightarrow> string"
  tmux_keys :: "(string \<times> string) list"

definition py_print :: "string \<Rightarrow> world \<Rightarrow> world" where
  "py_print s w = w\<lparr>stdout := stdout w @ [s]\<rparr>"

definition now :: "world \<Rightarrow> string \<times> world" where
  "now w = (clock w (ticks w), w\<lparr>ticks := Suc (ticks w)\<rparr>)"

section \<open>\<open>validate_id\<close>\<close>

text \<open>
  \<open>re.match(r'^[a-zA-Z0-9_-]+$', id_str)\<close>: \<open>re.match\<close> anchors at the start, the class
  takes one or more characters, and Python's \<open>$\<close> matches at the end of the string and
  also just before a newline that ends the string.
\<close>

definition id_char :: "char \<Rightarrow> bool" where
  "id_char c =
     (let n = (of_char c :: nat)
      in (97 \<le> n \<and> n \<le> 122) \<or> (65 \<le> n \<and> n \<le> 90) \<or> (48 \<le> n \<and> n \<le> 57)
         \<or> c = CHR ''_'' \<or> c = CHR ''-'')"

definition re_match_id :: "string \<Rightarrow> bool" where
  "re_match_id s =
     (let body = (if s \<noteq> [] \<and> last s = CHR 0x0A then butlast s else s)
      in body \<noteq> [] \<and> list_all id_char body)"

definition validate_id :: "string \<Rightarrow> string \<Rightarrow> world \<Rightarrow> bool \<times> world" where
  "validate_id id_str name w =
     (if id_str = [] then (False, py_print (''Error: '' @ name @ '' cannot be empty'') w)
      else if \<not> re_match_id id_str then
        (False, py_print (''Error: '' @ name @ '' '' @ [CHR 0x27] @ id_str @ [CHR 0x27]
           @ '' contains invalid characters. Use only letters, numbers, underscores, and hyphens.'') w)
      else (True, w))"

section \<open>\<open>Task\<close> and \<open>Message\<close> as JSON\<close>

text \<open>
  \<open>to_dict\<close> is \<open>asdict\<close>, the fields in their order, with the status replaced by its
  value. \<open>from_dict\<close> calls the constructor with the dict's entries as keyword arguments:
  a key that is no field, or a missing field without a default, is a \<open>TypeError\<close>;
  \<open>__post_init__\<close> replaces \<open>None\<close> for \<open>dependencies\<close> by the empty list and \<open>None\<close> for
  \<open>created_at\<close> or \<open>timestamp\<close> by a reading of the clock.
\<close>

definition status_value :: "TaskStatus \<Rightarrow> string" where
  "status_value s =
     (case s of PENDING \<Rightarrow> ''pending'' | IN_PROGRESS \<Rightarrow> ''in_progress''
      | COMPLETED \<Rightarrow> ''completed'' | BLOCKED \<Rightarrow> ''blocked'')"

text \<open>\<open>TaskStatus(v)\<close>: the member with the value \<open>v\<close>; \<open>None\<close> stands for its \<open>ValueError\<close>.\<close>

definition TaskStatus_of :: "json \<Rightarrow> TaskStatus option" where
  "TaskStatus_of v =
     (if v = JStr ''pending'' then Some PENDING
      else if v = JStr ''in_progress'' then Some IN_PROGRESS
      else if v = JStr ''completed'' then Some COMPLETED
      else if v = JStr ''blocked'' then Some BLOCKED
      else None)"

definition opt_str_json :: "string option \<Rightarrow> json" where
  "opt_str_json a = (case a of None \<Rightarrow> JNull | Some s \<Rightarrow> JStr s)"

text \<open>
  Reading a keyword argument at the type the dataclass declares; the outer \<open>None\<close> says
  that the value has another type. An absent key takes the default \<open>None\<close>.
\<close>

fun as_str :: "json option \<Rightarrow> string option" where
  "as_str (Some (JStr s)) = Some s"
| "as_str _ = None"

fun as_opt_str :: "json option \<Rightarrow> string option option" where
  "as_opt_str None = Some None"
| "as_opt_str (Some JNull) = Some None"
| "as_opt_str (Some (JStr s)) = Some (Some s)"
| "as_opt_str _ = None"

fun as_str_list :: "json option \<Rightarrow> string list option" where
  "as_str_list None = Some []"
| "as_str_list (Some JNull) = Some []"
| "as_str_list (Some (JArr xs)) = those (map (\<lambda>x. as_str (Some x)) xs)"
| "as_str_list _ = None"

definition Task_fields :: "string list" where
  "Task_fields = [''id'', ''title'', ''description'', ''assigned_to'', ''status'',
                  ''dependencies'', ''created_at'', ''completed_at'']"

definition Task_to_dict :: "Task \<Rightarrow> json" where
  "Task_to_dict t =
     JObj [(''id'', JStr (id_task t)), (''title'', JStr (title t)),
           (''description'', JStr (description t)),
           (''assigned_to'', opt_str_json (assigned_to t)),
           (''status'', JStr (status_value (status t))),
           (''dependencies'', JArr (map JStr (dependencies t))),
           (''created_at'', JStr (created_at t)),
           (''completed_at'', opt_str_json (completed_at t))]"

definition Task_from_dict :: "json \<Rightarrow> world \<Rightarrow> (stop + Task) \<times> world" where
  "Task_from_dict data w =
     (case data of
        JObj kv \<Rightarrow>
          (case map_of kv ''status'' of
             None \<Rightarrow> (Inl (Raised (KeyError ''status'')), w)
           | Some sv \<Rightarrow>
               (case TaskStatus_of sv of
                  None \<Rightarrow> (Inl (Raised (ValueError None)), w)
                | Some st \<Rightarrow>
                    if list_ex (\<lambda>k. k \<notin> set Task_fields) (map fst kv)
                       \<or> list_ex (\<lambda>k. map_of kv k = None) [''id'', ''title'', ''description'']
                    then (Inl (Raised TypeError), w)
                    else
                      let i = as_str (map_of kv ''id'');
                          t = as_str (map_of kv ''title'');
                          d = as_str (map_of kv ''description'');
                          a = as_opt_str (map_of kv ''assigned_to'');
                          ds = as_str_list (map_of kv ''dependencies'');
                          c = as_opt_str (map_of kv ''created_at'');
                          f = as_opt_str (map_of kv ''completed_at'')
                      in if i = None \<or> t = None \<or> d = None \<or> a = None \<or> ds = None
                            \<or> c = None \<or> f = None
                         then (Inl Untyped, w)
                         else
                           (case the c of
                              Some ts \<Rightarrow>
                                (Inr \<lparr>id_task = the i, title = the t, description = the d,
                                      assigned_to = the a, status = st, dependencies = the ds,
                                      created_at = ts, completed_at = the f\<rparr>, w)
                            | None \<Rightarrow>
                                (case now w of (ts, w1) \<Rightarrow>
                                   (Inr \<lparr>id_task = the i, title = the t, description = the d,
                                         assigned_to = the a, status = st, dependencies = the ds,
                                         created_at = ts, completed_at = the f\<rparr>, w1)))))
      | JArr xs \<Rightarrow> (Inl (Raised TypeError), w)
      | _ \<Rightarrow> (Inl (Raised AttributeError), w))"

definition Message_fields :: "string list" where
  "Message_fields = [''from_agent'', ''to_agent'', ''content'', ''timestamp'']"

definition Message_to_dict :: "Message \<Rightarrow> json" where
  "Message_to_dict m =
     JObj [(''from_agent'', JStr (from_agent m)), (''to_agent'', JStr (to_agent m)),
           (''content'', JStr (content m)), (''timestamp'', JStr (timestamp m))]"

definition Message_from_dict :: "json \<Rightarrow> world \<Rightarrow> (stop + Message) \<times> world" where
  "Message_from_dict data w =
     (case data of
        JObj kv \<Rightarrow>
          if list_ex (\<lambda>k. k \<notin> set Message_fields) (map fst kv)
             \<or> list_ex (\<lambda>k. map_of kv k = None) [''from_agent'', ''to_agent'', ''content'']
          then (Inl (Raised TypeError), w)
          else
            let f = as_str (map_of kv ''from_agent'');
                t = as_str (map_of kv ''to_agent'');
                c = as_str (map_of kv ''content'');
                s = as_opt_str (map_of kv ''timestamp'')
            in if f = None \<or> t = None \<or> c = None \<or> s = None then (Inl Untyped, w)
               else
                 (case the s of
                    Some ts \<Rightarrow>
                      (Inr \<lparr>from_agent = the f, to_agent = the t, content = the c,
                            timestamp = ts\<rparr>, w)
                  | None \<Rightarrow>
                      (case now w of (ts, w1) \<Rightarrow>
                         (Inr \<lparr>from_agent = the f, to_agent = the t, content = the c,
                               timestamp = ts\<rparr>, w1)))
      | _ \<Rightarrow> (Inl (Raised TypeError), w))"

section \<open>\<open>StateManager\<close>\<close>

text \<open>
  \<open>load_*\<close> catch \<open>json.JSONDecodeError\<close> and \<open>IOError\<close>/\<open>OSError\<close> and nothing else:
  whatever else \<open>json.load\<close> or \<open>from_dict\<close> raises leaves the method.
\<close>

definition tasks_to_json :: "task_dict \<Rightarrow> json" where
  "tasks_to_json tasks = JObj (map (\<lambda>(k, v). (k, Task_to_dict v)) tasks)"

definition save_tasks :: "task_dict \<Rightarrow> world \<Rightarrow> world" where
  "save_tasks tasks w = w\<lparr>tasks_file := Holds (tasks_to_json tasks)\<rparr>"

text \<open>The comprehension \<open>{k: Task.from_dict(v) for k, v in data.items()}\<close>.\<close>

fun tasks_from_items :: "(string \<times> json) list \<Rightarrow> world \<Rightarrow> (stop + task_dict) \<times> world" where
  "tasks_from_items [] w = (Inr [], w)"
| "tasks_from_items ((k, v) # rest) w =
     (case Task_from_dict v w of
        (Inl e, w1) \<Rightarrow> (Inl e, w1)
      | (Inr t, w1) \<Rightarrow>
          (case tasks_from_items rest w1 of
             (Inl e, w2) \<Rightarrow> (Inl e, w2)
           | (Inr ts, w2) \<Rightarrow> (Inr ((k, t) # ts), w2)))"

definition load_tasks :: "world \<Rightarrow> (stop + task_dict) \<times> world" where
  "load_tasks w =
     (case tasks_file w of
        Absent \<Rightarrow> (Inr [], w)
      | Unreadable e \<Rightarrow> (Inr [], py_print (''Error loading tasks: '' @ e) w)
      | Undecodable \<Rightarrow> (Inl (Raised UnicodeDecodeError), w)
      | TooDeep \<Rightarrow> (Inl (Raised RecursionError), w)
      | Corrupted e \<Rightarrow> (Inr [], py_print (''Error: Corrupted tasks file. '' @ e) w)
      | Holds data \<Rightarrow>
          (case data of
             JObj kv \<Rightarrow> tasks_from_items kv w
           | _ \<Rightarrow> (Inl (Raised AttributeError), w)))"

definition messages_to_json :: "Message list \<Rightarrow> json" where
  "messages_to_json messages = JArr (map Message_to_dict messages)"

definition save_messages :: "Message list \<Rightarrow> world \<Rightarrow> world" where
  "save_messages messages w = w\<lparr>messages_file := Holds (messages_to_json messages)\<rparr>"

text \<open>
  The comprehension \<open>[Message.from_dict(m) for m in data]\<close>. It iterates over whatever
  \<open>data\<close> is: the elements of a list, the keys of a dict, the characters of a string
  (each of them a string, on which \<open>from_dict\<close> raises); anything else is not iterable.
\<close>

fun messages_from_list :: "json list \<Rightarrow> world \<Rightarrow> (stop + Message list) \<times> world" where
  "messages_from_list [] w = (Inr [], w)"
| "messages_from_list (v # rest) w =
     (case Message_from_dict v w of
        (Inl e, w1) \<Rightarrow> (Inl e, w1)
      | (Inr m, w1) \<Rightarrow>
          (case messages_from_list rest w1 of
             (Inl e, w2) \<Rightarrow> (Inl e, w2)
           | (Inr ms, w2) \<Rightarrow> (Inr (m # ms), w2)))"

definition load_messages :: "world \<Rightarrow> (stop + Message list) \<times> world" where
  "load_messages w =
     (case messages_file w of
        Absent \<Rightarrow> (Inr [], w)
      | Unreadable e \<Rightarrow> (Inr [], py_print (''Error loading messages: '' @ e) w)
      | Undecodable \<Rightarrow> (Inl (Raised UnicodeDecodeError), w)
      | TooDeep \<Rightarrow> (Inl (Raised RecursionError), w)
      | Corrupted e \<Rightarrow> (Inr [], py_print (''Error: Corrupted messages file. '' @ e) w)
      | Holds data \<Rightarrow>
          (case data of
             JArr xs \<Rightarrow> messages_from_list xs w
           | JObj kv \<Rightarrow> messages_from_list (map (\<lambda>(k, v). JStr k) kv) w
           | JStr s \<Rightarrow> messages_from_list (map (\<lambda>c. JStr [c]) s) w
           | _ \<Rightarrow> (Inl (Raised TypeError), w)))"

definition append_message :: "Message \<Rightarrow> world \<Rightarrow> (stop + unit) \<times> world" where
  "append_message message w =
     (case load_messages w of
        (Inl e, w1) \<Rightarrow> (Inl e, w1)
      | (Inr messages, w1) \<Rightarrow> (Inr (), save_messages (messages @ [message]) w1))"

text \<open>\<open>save_groups\<close> dumps and \<open>load_groups\<close> returns whatever JSON value there is.\<close>

definition save_groups :: "json \<Rightarrow> world \<Rightarrow> world" where
  "save_groups groups w = w\<lparr>groups_file := Holds groups\<rparr>"

definition load_groups :: "world \<Rightarrow> (stop + json) \<times> world" where
  "load_groups w =
     (case groups_file w of
        Absent \<Rightarrow> (Inr (JObj []), w)
      | Unreadable e \<Rightarrow> (Inr (JObj []), py_print (''Error loading groups: '' @ e) w)
      | Undecodable \<Rightarrow> (Inl (Raised UnicodeDecodeError), w)
      | TooDeep \<Rightarrow> (Inl (Raised RecursionError), w)
      | Corrupted e \<Rightarrow> (Inr (JObj []), py_print (''Error: Corrupted groups file. '' @ e) w)
      | Holds data \<Rightarrow> (Inr data, w))"

definition append_log :: "string \<Rightarrow> string \<Rightarrow> world \<Rightarrow> world" where
  "append_log agent_name message w =
     (case now w of (ts, w1) \<Rightarrow>
        w1\<lparr>logs := (logs w1)(agent_name := logs w1 agent_name @ [''['' @ ts @ ''] '' @ message])\<rparr>)"

text \<open>The constructor of \<open>Message\<close> without a timestamp: \<open>__post_init__\<close> reads the clock.\<close>

definition new_Message :: "string \<Rightarrow> string \<Rightarrow> string \<Rightarrow> world \<Rightarrow> Message \<times> world" where
  "new_Message frm to txt w =
     (case now w of (ts, w1) \<Rightarrow>
        (\<lparr>from_agent = frm, to_agent = to, content = txt, timestamp = ts\<rparr>, w1))"

section \<open>\<open>TmuxManager\<close>\<close>

text \<open>
  \<open>session_exists\<close> catches the \<open>FileNotFoundError\<close> of a missing binary; \<open>send_message\<close>
  catches \<open>CalledProcessError\<close> only.
\<close>

definition get_session_name :: "string \<Rightarrow> string" where
  "get_session_name agent_name = ''agent_swarm_'' @ agent_name"

definition session_exists :: "string \<Rightarrow> world \<Rightarrow> bool" where
  "session_exists session_name w = (tmux_installed w \<and> tmux w session_name \<noteq> NoSession)"

definition tmux_send_message :: "string \<Rightarrow> string \<Rightarrow> world \<Rightarrow> (stop + unit) \<times> world" where
  "tmux_send_message session_name message w =
     (if \<not> tmux_installed w then (Inl (Raised FileNotFoundError), w)
      else
        (case tmux w session_name of
           Attached \<Rightarrow>
             (Inr (), w\<lparr>tmux_keys := tmux_keys w @ [(session_name, ''# MESSAGE: '' @ message)]\<rparr>)
         | _ \<Rightarrow>
             (Inr (), py_print (''Warning: Failed to send message to '' @ session_name @ '': ''
                                  @ tmux_error w session_name message) w)))"

text \<open>The three lines "send via tmux if available" that follow every message.\<close>

definition tmux_notify :: "string \<Rightarrow> string \<Rightarrow> world \<Rightarrow> (stop + unit) \<times> world" where
  "tmux_notify agent_name message w =
     (let session_name = get_session_name agent_name
      in if session_exists session_name w then tmux_send_message session_name message w
         else (Inr (), w))"

section \<open>Dependencies and the cascade\<close>

text \<open>
  \<open>_check_dependencies\<close> is written twice in the source, in \<open>TechDirector\<close> over
  \<open>self.tasks\<close> and in \<open>Group\<close> over the dict it is given, with the same body.
\<close>

fun check_deps :: "string list \<Rightarrow> task_dict \<Rightarrow> bool" where
  "check_deps [] tasks = True"
| "check_deps (dep_id # rest) tasks =
     (case map_of tasks dep_id of
        None \<Rightarrow> False
      | Some d \<Rightarrow> if status d \<noteq> COMPLETED then False else check_deps rest tasks)"

definition check_dependencies :: "Task \<Rightarrow> task_dict \<Rightarrow> bool" where
  "check_dependencies task tasks = check_deps (dependencies task) tasks"

text \<open>Python's truth value of \<open>task.assigned_to\<close>: neither \<open>None\<close> nor the empty string.\<close>

definition truthy :: "string option \<Rightarrow> bool" where
  "truthy a = (case a of None \<Rightarrow> False | Some s \<Rightarrow> s \<noteq> [])"

text \<open>
  The loop of \<open>_unblock_dependent_tasks\<close>, also written twice in the source: the two
  copies differ in the agent that logs and sends (\<open>"TD"\<close> or the group's name) and in the
  text of the message. The loop runs over the keys of the dict in their order and reads
  each task as it is when its turn comes. An exception leaves the loop with the dict as
  it is then.
\<close>

fun unblock_loop ::
  "string \<Rightarrow> (string \<Rightarrow> string) \<Rightarrow> string \<Rightarrow> string list \<Rightarrow> task_dict \<Rightarrow> world
     \<Rightarrow> (stop + unit) \<times> task_dict \<times> world" where
  "unblock_loop agent text task_id [] tasks w = (Inr (), tasks, w)"
| "unblock_loop agent text task_id (tid # rest) tasks w =
     (case map_of tasks tid of
        None \<Rightarrow> unblock_loop agent text task_id rest tasks w
      | Some task \<Rightarrow>
          if task_id \<in> set (dependencies task) \<and> status task = BLOCKED
             \<and> check_dependencies task tasks
          then
            let tasks1 = AList.update tid (task\<lparr>status := IN_PROGRESS\<rparr>) tasks;
                w1 = append_log agent (''Unblocked task '' @ tid) w
            in if truthy (assigned_to task) then
                 (case new_Message agent (the (assigned_to task)) (text tid) w1 of
                    (message, w2) \<Rightarrow>
                      (case append_message message w2 of
                         (Inl e, w3) \<Rightarrow> (Inl e, tasks1, w3)
                       | (Inr u, w3) \<Rightarrow>
                           (case tmux_notify (the (assigned_to task))
                                   (''Task '' @ tid @ '' is now unblocked!'') w3 of
                              (Inl e, w4) \<Rightarrow> (Inl e, tasks1, w4)
                            | (Inr u', w4) \<Rightarrow> unblock_loop agent text task_id rest tasks1 w4)))
               else unblock_loop agent text task_id rest tasks1 w1
          else unblock_loop agent text task_id rest tasks w)"

definition td_unblock_text :: "string \<Rightarrow> string" where
  "td_unblock_text tid = ''Task '' @ tid @ '' is now unblocked and ready to work on''"

definition group_unblock_text :: "string \<Rightarrow> string \<Rightarrow> string" where
  "group_unblock_text task_id tid =
     ''Task '' @ tid @ '' is now unblocked and ready to work on (dependency '' @ task_id
       @ '' completed)''"

definition td_unblock_dependent_tasks ::
  "string \<Rightarrow> task_dict \<Rightarrow> world \<Rightarrow> (stop + unit) \<times> task_dict \<times> world" where
  "td_unblock_dependent_tasks task_id tasks w =
     (case unblock_loop ''TD'' td_unblock_text task_id (map fst tasks) tasks w of
        (Inl e, tasks1, w1) \<Rightarrow> (Inl e, tasks1, w1)
      | (Inr u, tasks1, w1) \<Rightarrow> (Inr (), tasks1, save_tasks tasks1 w1))"

definition group_unblock_dependent_tasks ::
  "string \<Rightarrow> string \<Rightarrow> task_dict \<Rightarrow> world \<Rightarrow> (stop + unit) \<times> task_dict \<times> world" where
  "group_unblock_dependent_tasks name task_id tasks w =
     unblock_loop name (group_unblock_text task_id) task_id (map fst tasks) tasks w"

section \<open>\<open>TechDirector\<close>\<close>

text \<open>
  A \<open>TechDirector\<close> object is its dict \<open>self.tasks\<close>, loaded once by the constructor. Each
  method takes that dict and the world and returns its result (or what stopped it), the
  dict and the world.
\<close>

definition td_init :: "world \<Rightarrow> (stop + task_dict) \<times> world" where
  "td_init w = load_tasks w"

definition td_create_task ::
  "string \<Rightarrow> string \<Rightarrow> string \<Rightarrow> string list option \<Rightarrow> task_dict \<Rightarrow> world
     \<Rightarrow> bool \<times> task_dict \<times> world" where
  "td_create_task task_id ttl descr deps tasks w =
     (case validate_id task_id ''Task ID'' w of (ok, w1) \<Rightarrow>
        if \<not> ok then (False, tasks, w1)
        else if map_of tasks task_id \<noteq> None then
          (False, tasks, py_print (''Error: Task '' @ task_id @ '' already exists'') w1)
        else
          (case find (\<lambda>dep_id. map_of tasks dep_id = None) (case deps of None \<Rightarrow> [] | Some ds \<Rightarrow> ds) of
             Some dep_id \<Rightarrow>
               (False, tasks, py_print (''Error: Dependency '' @ dep_id @ '' does not exist'') w1)
           | None \<Rightarrow>
               (case now w1 of (ts, w2) \<Rightarrow>
                  let task = \<lparr>id_task = task_id, title = ttl, description = descr,
                               assigned_to = None, status = PENDING,
                               dependencies = (case deps of None \<Rightarrow> [] | Some ds \<Rightarrow> ds),
                               created_at = ts, completed_at = None\<rparr>;
                      tasks1 = AList.update task_id task tasks;
                      w3 = save_tasks tasks1 w2;
                      w4 = append_log ''TD'' (''Created task '' @ task_id @ '': '' @ ttl) w3;
                      w5 = py_print (''Task '' @ task_id @ '' created successfully'') w4
                  in (True, tasks1, w5))))"


definition td_complete_task ::
  "string \<Rightarrow> task_dict \<Rightarrow> world \<Rightarrow> (stop + bool) \<times> task_dict \<times> world" where
  "td_complete_task task_id tasks w =
     (case map_of tasks task_id of
        None \<Rightarrow> (Inr False, tasks, py_print (''Error: Task '' @ task_id @ '' does not exist'') w)
      | Some task \<Rightarrow>
          if status task = COMPLETED then
            (Inr True, tasks, py_print (''Warning: Task '' @ task_id @ '' is already completed'') w)
          else if status task = BLOCKED then
            (Inr False, tasks, py_print (''Error: Cannot complete task '' @ task_id
               @ '' - it is blocked by dependencies'') w)
          else
            (case now w of (ts, w1) \<Rightarrow>
               let tasks1 = AList.update task_id
                              (task\<lparr>status := COMPLETED, completed_at := Some ts\<rparr>) tasks;
                   w2 = save_tasks tasks1 w1;
                   w3 = append_log ''TD'' (''Completed task '' @ task_id) w2
               in (case td_unblock_dependent_tasks task_id tasks1 w3 of
                     (Inl e, tasks2, w4) \<Rightarrow> (Inl e, tasks2, w4)
                   | (Inr u, tasks2, w4) \<Rightarrow>
                       (Inr True, tasks2,
                        py_print (''Task '' @ task_id @ '' marked as completed'') w4))))"

section \<open>\<open>Group\<close>\<close>

text \<open>
  The constructor validates the name and registers the group; an invalid name raises
  \<open>ValueError\<close>. \<open>name not in groups\<close> and \<open>groups[name] = ...\<close> work on whatever
  \<open>load_groups\<close> returned: on a list \<open>in\<close> looks for an equal element, on a string for a
  substring, and neither takes an item assignment with a string index (\<open>TypeError\<close>,
  raised after the right-hand side has read the clock); \<open>None\<close>, a bool or a number is
  not iterable (\<open>TypeError\<close>). A \<open>Group\<close> object is its name: \<open>complete_task\<close> loads the
  tasks itself.
\<close>

fun py_in_str :: "string \<Rightarrow> string \<Rightarrow> bool" where
  "py_in_str xs [] = (xs = [])"
| "py_in_str xs (y # ys) = (take (length xs) (y # ys) = xs \<or> py_in_str xs ys)"

definition group_init :: "string \<Rightarrow> world \<Rightarrow> (stop + string) \<times> world" where
  "group_init name w =
     (case validate_id name ''Group name'' w of (ok, w1) \<Rightarrow>
        if \<not> ok then (Inl (Raised (ValueError (Some (''Invalid group name: '' @ name)))), w1)
        else
          (case load_groups w1 of
             (Inl e, w2) \<Rightarrow> (Inl e, w2)
           | (Inr groups, w2) \<Rightarrow>
               (case groups of
                  JObj kv \<Rightarrow>
                    if map_of kv name = None then
                      (case now w2 of (ts, w3) \<Rightarrow>
                         (Inr name,
                          save_groups
                            (JObj (AList.update name
                                     (JObj [(''name'', JStr name), (''created_at'', JStr ts)]) kv))
                            w3))
                    else (Inr name, w2)
                | JArr xs \<Rightarrow>
                    if JStr name \<notin> set xs then (Inl (Raised TypeError), snd (now w2))
                    else (Inr name, w2)
                | JStr s \<Rightarrow>
                    if \<not> py_in_str name s then (Inl (Raised TypeError), snd (now w2))
                    else (Inr name, w2)
                | _ \<Rightarrow> (Inl (Raised TypeError), w2))))"

definition group_complete_task :: "string \<Rightarrow> string \<Rightarrow> world \<Rightarrow> (stop + bool) \<times> world" where
  "group_complete_task name task_id w =
     (case load_tasks w of
        (Inl e, w0) \<Rightarrow> (Inl e, w0)
      | (Inr tasks, w0) \<Rightarrow>
        (case map_of tasks task_id of
           None \<Rightarrow> (Inr False, py_print (''Error: Task '' @ task_id @ '' does not exist'') w0)
         | Some task \<Rightarrow>
             if assigned_to task \<noteq> Some name then
               (Inr False,
                py_print (''Error: Task '' @ task_id @ '' is not assigned to '' @ name) w0)
             else if status task = COMPLETED then
               (Inr True, py_print (''Warning: Task '' @ task_id @ '' is already completed'') w0)
             else if status task = BLOCKED then
               (Inr False, py_print (''Error: Cannot complete task '' @ task_id
                  @ '' - it is blocked by dependencies'') w0)
             else
               (case now w0 of (ts, w1) \<Rightarrow>
                  let tasks1 = AList.update task_id
                                 (task\<lparr>status := COMPLETED, completed_at := Some ts\<rparr>) tasks
                  in (case group_unblock_dependent_tasks name task_id tasks1 w1 of
                        (Inl e, tasks2, w2) \<Rightarrow> (Inl e, w2)
                      | (Inr u, tasks2, w2) \<Rightarrow>
                          let w3 = save_tasks tasks2 w2;
                              w4 = append_log name (''Completed task '' @ task_id) w3
                          in (case new_Message name ''TD'' (''Task '' @ task_id @ '' completed'') w4 of
                                (message, w5) \<Rightarrow>
                                  (case append_message message w5 of
                                     (Inl e, w6) \<Rightarrow> (Inl e, w6)
                                   | (Inr u', w6) \<Rightarrow>
                                       (case tmux_notify ''TD''
                                               (name @ '' completed task: '' @ task_id) w6 of
                                          (Inl e, w7) \<Rightarrow> (Inl e, w7)
                                        | (Inr u'', w7) \<Rightarrow>
                                            (Inr True,
                                             py_print (''Task '' @ task_id
                                                         @ '' marked as completed'') w7))))))))"

section \<open>Notions used to state the properties\<close>

text \<open>
  The messages a reader of the messages file gets: what \<open>load_messages\<close> returns, if it
  returns.
\<close>

definition stored_messages :: "world \<Rightarrow> Message list option" where
  "stored_messages w = (case fst (load_messages w) of Inl e \<Rightarrow> None | Inr ms \<Rightarrow> Some ms)"

text \<open>
  \<open>unblocks task_id tasks tid\<close>: the cascade for the completed task \<open>task_id\<close>, run on the
  dict \<open>tasks\<close>, moves the task \<open>tid\<close> to \<open>IN_PROGRESS\<close>; \<open>notified\<close>: it also sends that
  task's assignee a message; \<open>assignee\<close>: whom the message goes to.
\<close>

definition unblocks :: "string \<Rightarrow> task_dict \<Rightarrow> string \<Rightarrow> bool" where
  "unblocks task_id tasks tid =
     (case map_of tasks tid of
        None \<Rightarrow> False
      | Some task \<Rightarrow> task_id \<in> set (dependencies task) \<and> status task = BLOCKED
                     \<and> check_dependencies task tasks)"

definition notified :: "string \<Rightarrow> task_dict \<Rightarrow> string \<Rightarrow> bool" where
  "notified task_id tasks tid =
     (unblocks task_id tasks tid \<and> truthy (assigned_to (the (map_of tasks tid))))"

definition assignee :: "task_dict \<Rightarrow> string \<Rightarrow> string" where
  "assignee tasks tid = the (assigned_to (the (map_of tasks tid)))"

text \<open>A message without its timestamp: sender, addressee and text.\<close>

definition msg_view :: "Message \<Rightarrow> string \<times> string \<times> string" where
  "msg_view m = (from_agent m, to_agent m, content m)"

text \<open>A state directory that was just created, with no tmux around.\<close>

definition fresh_world :: world where
  "fresh_world =
     \<lparr>tasks_file = Absent, messages_file = Absent, groups_file = Absent,
      logs = (\<lambda>_. []), stdout = [], clock = (\<lambda>n. ''2024-01-01T00:00:00''), ticks = 0,
      tmux_installed = False, tmux = (\<lambda>_. NoSession), tmux_error = (\<lambda>_ _. []),
      tmux_keys = []\<rparr>"

text \<open>Tasks and stores for the examples.\<close>

definition example_task :: "string \<Rightarrow> string list \<Rightarrow> string option \<Rightarrow> TaskStatus \<Rightarrow> Task" where
  "example_task tid deps grp st =
     \<lparr>id_task = tid, title = ''T'', description = ''D'', assigned_to = grp, status = st,
      dependencies = deps, created_at = ''2024-01-01T00:00:00'', completed_at = None\<rparr>"

definition blocked_store :: task_dict where
  "blocked_store =
     [(''t1'', example_task ''t1'' [] (Some ''alpha'') IN_PROGRESS),
      (''t2'', example_task ''t2'' [''t1''] (Some ''beta'') BLOCKED)]"

definition completed_store :: task_dict where
  "completed_store =
     [(''t1'', (example_task ''t1'' [] (Some ''alpha'') COMPLETED)
                 \<lparr>completed_at := Some ''2024-01-02T00:00:00''\<rparr>)]"

text \<open>
  The messages file is as \<open>save_messages\<close> left it with the messages \<open>ms\<close>, or it is
  absent and \<open>ms\<close> is empty.
\<close>

definition messages_are :: "world \<Rightarrow> Message list \<Rightarrow> bool" where
  "messages_are w ms =
     (messages_file w = Holds (messages_to_json ms) \<or> (ms = [] \<and> messages_file w = Absent))"

text \<open>A fresh state directory whose tasks file holds the dict \<open>tasks\<close>.\<close>

definition store_world :: "task_dict \<Rightarrow> world" where
  "store_world tasks = fresh_world\<lparr>tasks_file := Holds (tasks_to_json tasks)\<rparr>"


text \<open>Python's \<open><\<close> on strings: lexicographic, by code point.\<close>

fun str_less :: "string \<Rightarrow> string \<Rightarrow> bool" where
  "str_less [] [] = False"
| "str_less [] (y # ys) = True"
| "str_less (x # xs) [] = False"
| "str_less (x # xs) (y # ys) =
     ((of_char x :: nat) < of_char y \<or> (x = y \<and> str_less xs ys))"

text \<open>A store whose tasks were created in the order \<open>t1\<close>, \<open>t3\<close>, \<open>t2\<close>.\<close>

definition order_store :: task_dict where
  "order_store =
     [(''t1'', example_task ''t1'' [] (Some ''alpha'') IN_PROGRESS),
      (''t3'', example_task ''t3'' [''t1''] (Some ''beta'') BLOCKED),
      (''t2'', example_task ''t2'' [''t1''] (Some ''beta'') BLOCKED)]"


text \<open>
  The process \<open>agent_swarm.py td create-task <id> <title> <description>\<close>: \<open>main\<close>
  constructs a \<open>TechDirector\<close>, which loads the tasks, and calls \<open>create_task\<close> with the
  empty list of dependencies. Nothing in \<open>main\<close>, \<open>TechDirector\<close> or \<open>StateManager\<close> takes
  a lock, so the steps of two such processes can come in any order. Two schedules: the
  second process starts when the first has ended; or both have constructed their
  \<open>TechDirector\<close> before either calls \<open>create_task\<close>.
\<close>

definition two_creates_in_turn ::
  "string \<Rightarrow> string \<Rightarrow> string \<Rightarrow> string \<Rightarrow> world \<Rightarrow> world" where
  "two_creates_in_turn a b ttl descr w =
     (case td_init w of
        (Inl e, w1) \<Rightarrow> w1
      | (Inr tasks_p, w1) \<Rightarrow>
          (case td_create_task a ttl descr (Some []) tasks_p w1 of
             (ok_p, tasks_p', w2) \<Rightarrow>
               (case td_init w2 of
                  (Inl e, w3) \<Rightarrow> w3
                | (Inr tasks_q, w3) \<Rightarrow>
                    (case td_create_task b ttl descr (Some []) tasks_q w3 of
                       (ok_q, tasks_q', w4) \<Rightarrow> w4))))"

definition two_creates_interleaved ::
  "string \<Rightarrow> string \<Rightarrow> string \<Rightarrow> string \<Rightarrow> world \<Rightarrow> world" where
  "two_creates_interleaved a b ttl descr w =
     (case td_init w of
        (Inl e, w1) \<Rightarrow> w1
      | (Inr tasks_p, w1) \<Rightarrow>
          (case td_init w1 of
             (Inl e, w2) \<Rightarrow> w2
           | (Inr tasks_q, w2) \<Rightarrow>
               (case td_create_task a ttl descr (Some []) tasks_p w2 of
                  (ok_p, tasks_p', w3) \<Rightarrow>
                    (case td_create_task b ttl descr (Some []) tasks_q w3 of
                       (ok_q, tasks_q', w4) \<Rightarrow> w4))))"

text \<open>The task that \<open>create_task\<close> makes, given the reading of the clock.\<close>

definition created_task :: "string \<Rightarrow> string \<Rightarrow> string \<Rightarrow> string \<Rightarrow> Task" where
  "created_task task_id ttl descr ts =
     \<lparr>id_task = task_id, title = ttl, description = descr, assigned_to = None,
      status = PENDING, dependencies = [], created_at = ts, completed_at = None\<rparr>"

section \<open>Saving and loading\<close>

lemma TaskStatus_of_status_value [simp]: "TaskStatus_of (JStr (status_value s)) = Some s"
  by (cases s) (simp_all add: TaskStatus_of_def status_value_def)

lemma those_as_str_JStr [simp]: "those (map ((\<lambda>x. as_str (Some x)) \<circ> JStr) ds) = Some ds"
  by (induction ds) simp_all

lemma as_opt_str_opt_str_json [simp]: "as_opt_str (Some (opt_str_json a)) = Some a"
  by (cases a) (simp_all add: opt_str_json_def)

lemma Task_from_dict_to_dict [simp]: "Task_from_dict (Task_to_dict t) w = (Inr t, w)"
  by (cases t) (simp add: Task_from_dict_def Task_to_dict_def Task_fields_def Let_def)

lemma tasks_from_items_to_dict [simp]:
  "tasks_from_items (map (\<lambda>(k, v). (k, Task_to_dict v)) tasks) w = (Inr tasks, w)"
  by (induction tasks) auto

lemma load_tasks_saved:
  "tasks_file w = Holds (tasks_to_json tasks) \<Longrightarrow> load_tasks w = (Inr tasks, w)"
  by (simp add: load_tasks_def tasks_to_json_def)

lemma Message_from_dict_to_dict [simp]: "Message_from_dict (Message_to_dict m) w = (Inr m, w)"
  by (cases m) (simp add: Message_from_dict_def Message_to_dict_def Message_fields_def Let_def)

lemma messages_from_list_to_dict [simp]:
  "messages_from_list (map Message_to_dict ms) w = (Inr ms, w)"
  by (induction ms) auto

lemma load_messages_saved:
  "messages_file w = Holds (messages_to_json ms) \<Longrightarrow> load_messages w = (Inr ms, w)"
  by (simp add: load_messages_def messages_to_json_def)

section \<open>Dependencies and the cascade: lemmas\<close>

lemma check_deps_iff:
  "check_deps ds tasks \<longleftrightarrow> (\<forall>d \<in> set ds. \<exists>t. map_of tasks d = Some t \<and> status t = COMPLETED)"
  by (induction ds) (auto split: option.splits)

lemma check_deps_update_other:
  assumes "map_of tasks k = Some t" and "status t \<noteq> COMPLETED" and "status t' \<noteq> COMPLETED"
  shows "check_deps ds (AList.update k t' tasks) = check_deps ds tasks"
  using assms by (auto simp: check_deps_iff update_conv')

lemma unblocks_update:
  assumes "map_of tasks k = Some t" and "status t \<noteq> COMPLETED" and "status t' \<noteq> COMPLETED"
    and "k' \<noteq> k"
  shows "unblocks a (AList.update k t' tasks) k' = unblocks a tasks k'"
  using assms
  by (simp add: unblocks_def update_conv' check_dependencies_def check_deps_update_other
           split: option.splits)

lemma notified_update:
  assumes "map_of tasks k = Some t" and "status t \<noteq> COMPLETED" and "status t' \<noteq> COMPLETED"
    and "k' \<noteq> k"
  shows "notified a (AList.update k t' tasks) k' = notified a tasks k'"
  using assms by (simp add: notified_def unblocks_update update_conv')

lemma assignee_update:
  "k' \<noteq> k \<Longrightarrow> assignee (AList.update k t' tasks) k' = assignee tasks k'"
  by (simp add: assignee_def update_conv')

lemma unblocks_in_keys: "unblocks a tasks k \<Longrightarrow> k \<in> set (map fst tasks)"
  by (auto simp: unblocks_def split: option.splits dest: map_of_SomeD intro: rev_image_eqI)

lemma update_keys_present:
  "map_of tasks k = Some t \<Longrightarrow> map fst (AList.update k t' tasks) = map fst tasks"
  by (simp add: update_keys) (metis fst_conv image_eqI map_of_SomeD)

section \<open>Messages: lemmas\<close>

lemma messages_are_cong: "messages_file w' = messages_file w \<Longrightarrow> messages_are w' = messages_are w"
  by (simp add: messages_are_def fun_eq_iff)

lemma load_messages_are: "messages_are w ms \<Longrightarrow> load_messages w = (Inr ms, w)"
  by (auto simp: messages_are_def load_messages_saved) (simp add: load_messages_def)

lemma append_message_are:
  assumes "messages_are w ms"
  shows "append_message m w = (Inr (), w\<lparr>messages_file := Holds (messages_to_json (ms @ [m]))\<rparr>)"
  using load_messages_are[OF assms] by (simp add: append_message_def save_messages_def)

lemma tmux_notify_ok:
  "\<exists>w'. tmux_notify a t w = (Inr (), w') \<and> messages_file w' = messages_file w
        \<and> tasks_file w' = tasks_file w"
  by (simp add: tmux_notify_def tmux_send_message_def session_exists_def Let_def py_print_def
           split: tmux_session.splits)

lemma new_Message_fields:
  "new_Message frm to txt w = (m, w') \<Longrightarrow>
     from_agent m = frm \<and> to_agent m = to \<and> content m = txt \<and> timestamp m = clock w (ticks w)
     \<and> messages_file w' = messages_file w \<and> tasks_file w' = tasks_file w"
  by (auto simp: new_Message_def now_def)

lemma messages_file_append_log [simp]: "messages_file (append_log a m w) = messages_file w"
  by (simp add: append_log_def now_def)

lemma tasks_file_append_log [simp]: "tasks_file (append_log a m w) = tasks_file w"
  by (simp add: append_log_def now_def)

lemma messages_file_py_print [simp]: "messages_file (py_print s w) = messages_file w"
  by (simp add: py_print_def)

lemma tasks_file_py_print [simp]: "tasks_file (py_print s w) = tasks_file w"
  by (simp add: py_print_def)

lemma messages_file_save_tasks [simp]: "messages_file (save_tasks ts w) = messages_file w"
  by (simp add: save_tasks_def)

lemma tasks_file_save_tasks [simp]: "tasks_file (save_tasks ts w) = Holds (tasks_to_json ts)"
  by (simp add: save_tasks_def)

text \<open>
  One step of sending: the message is appended to the stored ones, and the tasks file
  is not touched.
\<close>

lemma send_ok:
  assumes ms: "messages_are w ms" and nm: "new_Message frm to txt w = (m, w2)"
  shows "\<exists>w4. append_message m w2 = (Inr (), w2\<lparr>messages_file := Holds (messages_to_json (ms @ [m]))\<rparr>)
          \<and> tmux_notify a t (w2\<lparr>messages_file := Holds (messages_to_json (ms @ [m]))\<rparr>) = (Inr (), w4)
          \<and> messages_are w4 (ms @ [m]) \<and> tasks_file w4 = tasks_file w
          \<and> msg_view m = (frm, to, txt)"
proof -
  have m2: "messages_are w2 ms"
    using ms new_Message_fields[OF nm] by (simp add: messages_are_def)
  let ?w3 = "w2\<lparr>messages_file := Holds (messages_to_json (ms @ [m]))\<rparr>"
  obtain w4 where w4: "tmux_notify a t ?w3 = (Inr (), w4)" "messages_file w4 = messages_file ?w3"
      "tasks_file w4 = tasks_file ?w3"
    using tmux_notify_ok[of a t ?w3] by blast
  have "messages_are w4 (ms @ [m])" using w4 by (simp add: messages_are_def)
  moreover have "tasks_file w4 = tasks_file w" using w4 new_Message_fields[OF nm] by simp
  moreover have "msg_view m = (frm, to, txt)"
    using new_Message_fields[OF nm] by (simp add: msg_view_def)
  ultimately show ?thesis using append_message_are[OF m2, of m] w4(1) by blast
qed

lemma unblock_loop_run:
  assumes "distinct ks" and "messages_are w ms"
  shows "\<exists>tasks' w' new.
           unblock_loop ag tx a ks tasks w = (Inr (), tasks', w')
           \<and> map fst tasks' = map fst tasks
           \<and> (\<forall>k. map_of tasks' k =
                 (if k \<in> set ks \<and> unblocks a tasks k
                  then map_option (\<lambda>t. t\<lparr>status := IN_PROGRESS\<rparr>) (map_of tasks k)
                  else map_of tasks k))
           \<and> tasks_file w' = tasks_file w
           \<and> messages_are w' (ms @ new)
           \<and> map msg_view new =
               map (\<lambda>k. (ag, assignee tasks k, tx k)) (filter (notified a tasks) ks)"
  using assms
proof (induction ks arbitrary: tasks w ms)
  case Nil
  then show ?case by simp
next
  case (Cons x ks)
  then have d: "distinct ks" and nx: "x \<notin> set ks" by auto
  show ?case
  proof (cases "unblocks a tasks x")
    case False
    then have nn: "\<not> notified a tasks x" by (simp add: notified_def)
    have eq: "unblock_loop ag tx a (x # ks) tasks w = unblock_loop ag tx a ks tasks w"
      using False by (auto simp: unblocks_def split: option.splits)
    from Cons.IH[OF d Cons.prems(2), of tasks] obtain tasks' w' new where
      r: "unblock_loop ag tx a ks tasks w = (Inr (), tasks', w')"
         "map fst tasks' = map fst tasks"
         "\<forall>k. map_of tasks' k =
                 (if k \<in> set ks \<and> unblocks a tasks k
                  then map_option (\<lambda>t. t\<lparr>status := IN_PROGRESS\<rparr>) (map_of tasks k)
                  else map_of tasks k)"
         "tasks_file w' = tasks_file w" "messages_are w' (ms @ new)"
         "map msg_view new = map (\<lambda>k. (ag, assignee tasks k, tx k)) (filter (notified a tasks) ks)"
      by blast
    have "\<forall>k. map_of tasks' k =
                 (if k \<in> set (x # ks) \<and> unblocks a tasks k
                  then map_option (\<lambda>t. t\<lparr>status := IN_PROGRESS\<rparr>) (map_of tasks k)
                  else map_of tasks k)"
      using r(3) False by auto
    then show ?thesis using r nn unfolding eq by auto
  next
    case True
    then obtain t where t: "map_of tasks x = Some t" "a \<in> set (dependencies t)"
        "status t = BLOCKED" "check_dependencies t tasks"
      by (auto simp: unblocks_def split: option.splits)
    define tasks1 where "tasks1 = AList.update x (t\<lparr>status := IN_PROGRESS\<rparr>) tasks"
    define w1 where "w1 = append_log ag (''Unblocked task '' @ x) w"
    have k1: "map fst tasks1 = map fst tasks"
      using t(1) by (simp add: tasks1_def update_keys_present)
    have ub: "k \<noteq> x \<Longrightarrow> unblocks a tasks1 k = unblocks a tasks k" for k
      unfolding tasks1_def using t by (intro unblocks_update) auto
    have st: "filter (notified a tasks1) ks = filter (notified a tasks) ks"
      unfolding tasks1_def using t nx by (intro filter_cong refl notified_update) auto
    have as: "map (\<lambda>k. (ag, assignee tasks1 k, tx k)) (filter (notified a tasks) ks)
              = map (\<lambda>k. (ag, assignee tasks k, tx k)) (filter (notified a tasks) ks)"
    proof (intro map_cong refl)
      fix k assume "k \<in> set (filter (notified a tasks) ks)"
      then have "k \<noteq> x" using nx by auto
      then show "(ag, assignee tasks1 k, tx k) = (ag, assignee tasks k, tx k)"
        by (simp add: assignee_update tasks1_def)
    qed
    have m1: "messages_are w1 ms" using Cons.prems(2) by (simp add: messages_are_def w1_def)
    have tf1: "tasks_file w1 = tasks_file w" by (simp add: w1_def)
    have tk: "(\<forall>k. map_of tasks' k =
                 (if k \<in> set ks \<and> unblocks a tasks1 k
                  then map_option (\<lambda>t. t\<lparr>status := IN_PROGRESS\<rparr>) (map_of tasks1 k)
                  else map_of tasks1 k))
              \<Longrightarrow> (\<forall>k. map_of tasks' k =
                 (if k \<in> set (x # ks) \<and> unblocks a tasks k
                  then map_option (\<lambda>t. t\<lparr>status := IN_PROGRESS\<rparr>) (map_of tasks k)
                  else map_of tasks k))" for tasks'
      using t(1) True nx ub by (auto simp: tasks1_def update_conv')
    show ?thesis
    proof (cases "truthy (assigned_to t)")
      case False
      then have nn: "\<not> notified a tasks x" using t by (simp add: notified_def)
      have eq: "unblock_loop ag tx a (x # ks) tasks w = unblock_loop ag tx a ks tasks1 w1"
        using t False by (simp add: Let_def tasks1_def w1_def)
      from Cons.IH[OF d m1, of tasks1] obtain tasks' w' new where
        r: "unblock_loop ag tx a ks tasks1 w1 = (Inr (), tasks', w')"
           "map fst tasks' = map fst tasks1"
           "\<forall>k. map_of tasks' k =
                 (if k \<in> set ks \<and> unblocks a tasks1 k
                  then map_option (\<lambda>t. t\<lparr>status := IN_PROGRESS\<rparr>) (map_of tasks1 k)
                  else map_of tasks1 k)"
           "tasks_file w' = tasks_file w1" "messages_are w' (ms @ new)"
           "map msg_view new = map (\<lambda>k. (ag, assignee tasks1 k, tx k)) (filter (notified a tasks1) ks)"
        by blast
      show ?thesis
        unfolding eq using r(1,2,4,5,6) tk[OF r(3)] nn k1 tf1 st as by auto
    next
      case tr: True
      then have nn: "notified a tasks x" using t True by (simp add: notified_def)
      obtain m w2 where m: "new_Message ag (the (assigned_to t)) (tx x) w1 = (m, w2)"
        by (cases "new_Message ag (the (assigned_to t)) (tx x) w1") auto
      from send_ok[OF m1 m, of "the (assigned_to t)" "''Task '' @ x @ '' is now unblocked!''"]
      obtain w4 where s:
        "append_message m w2 = (Inr (), w2\<lparr>messages_file := Holds (messages_to_json (ms @ [m]))\<rparr>)"
        "tmux_notify (the (assigned_to t)) (''Task '' @ x @ '' is now unblocked!'')
           (w2\<lparr>messages_file := Holds (messages_to_json (ms @ [m]))\<rparr>) = (Inr (), w4)"
        "messages_are w4 (ms @ [m])" "tasks_file w4 = tasks_file w1"
        "msg_view m = (ag, the (assigned_to t), tx x)"
        by blast
      have eq: "unblock_loop ag tx a (x # ks) tasks w = unblock_loop ag tx a ks tasks1 w4"
        using t tr m s(1,2) unfolding tasks1_def w1_def by (simp add: Let_def)
      have mv: "msg_view m = (ag, assignee tasks x, tx x)"
        using s(5) t by (simp add: assignee_def)
      from Cons.IH[OF d s(3), of tasks1] obtain tasks' w' new where
        r: "unblock_loop ag tx a ks tasks1 w4 = (Inr (), tasks', w')"
           "map fst tasks' = map fst tasks1"
           "\<forall>k. map_of tasks' k =
                 (if k \<in> set ks \<and> unblocks a tasks1 k
                  then map_option (\<lambda>t. t\<lparr>status := IN_PROGRESS\<rparr>) (map_of tasks1 k)
                  else map_of tasks1 k)"
           "tasks_file w' = tasks_file w4" "messages_are w' ((ms @ [m]) @ new)"
           "map msg_view new = map (\<lambda>k. (ag, assignee tasks1 k, tx k)) (filter (notified a tasks1) ks)"
        by blast
      have "messages_are w' (ms @ (m # new))" using r(5) by simp
      moreover have "map msg_view (m # new) =
               map (\<lambda>k. (ag, assignee tasks k, tx k)) (filter (notified a tasks) (x # ks))"
        using r(6) nn mv st as by simp
      moreover have "map fst tasks' = map fst tasks" using r(2) k1 by simp
      moreover have "tasks_file w' = tasks_file w" using r(4) s(4) tf1 by simp
      ultimately show ?thesis
        unfolding eq using r(1) tk[OF r(3)] by blast
    qed
  qed
qed

lemma td_complete_task_run:
  assumes a: "map_of tasks a = Some ta" and nc: "status ta \<noteq> COMPLETED" and nb: "status ta \<noteq> BLOCKED"
    and d: "distinct (map fst tasks)" and ms: "messages_are w ms"
    and t1: "tasks1 = AList.update a (ta\<lparr>status := COMPLETED, completed_at := Some (clock w (ticks w))\<rparr>) tasks"
  shows "\<exists>tasks2 w' new. td_complete_task a tasks w = (Inr True, tasks2, w')
           \<and> tasks_file w' = Holds (tasks_to_json tasks2)
           \<and> map fst tasks2 = map fst tasks
           \<and> (\<forall>k. map_of tasks2 k =
                 (if unblocks a tasks1 k
                  then map_option (\<lambda>t. t\<lparr>status := IN_PROGRESS\<rparr>) (map_of tasks1 k)
                  else map_of tasks1 k))
           \<and> messages_are w' (ms @ new)
           \<and> map msg_view new =
               map (\<lambda>k. (''TD'', assignee tasks1 k, td_unblock_text k))
                 (filter (notified a tasks1) (map fst tasks))"
proof -
  define w1 where "w1 = snd (now w)"
  define w3 where "w3 = append_log ''TD'' (''Completed task '' @ a) (save_tasks tasks1 w1)"
  have k1: "map fst tasks1 = map fst tasks" using a t1 by (simp add: update_keys_present)
  have nw: "now w = (clock w (ticks w), w1)" by (simp add: now_def w1_def)
  have d1: "distinct (map fst tasks1)" using d k1 by simp
  have m3: "messages_are w3 ms"
    using ms by (simp add: messages_are_def w3_def w1_def now_def)
  from unblock_loop_run[OF d1 m3, of "''TD''" td_unblock_text a tasks1]
  obtain tasks2 w4 new where
    r: "unblock_loop ''TD'' td_unblock_text a (map fst tasks1) tasks1 w3 = (Inr (), tasks2, w4)"
       "map fst tasks2 = map fst tasks1"
       "\<forall>k. map_of tasks2 k =
                 (if k \<in> set (map fst tasks1) \<and> unblocks a tasks1 k
                  then map_option (\<lambda>t. t\<lparr>status := IN_PROGRESS\<rparr>) (map_of tasks1 k)
                  else map_of tasks1 k)"
       "tasks_file w4 = tasks_file w3" "messages_are w4 (ms @ new)"
       "map msg_view new = map (\<lambda>k. (''TD'', assignee tasks1 k, td_unblock_text k))
                             (filter (notified a tasks1) (map fst tasks1))"
    by blast
  define w' where "w' = py_print (''Task '' @ a @ '' marked as completed'') (save_tasks tasks2 w4)"
  have run: "td_complete_task a tasks w = (Inr True, tasks2, w')"
    using a nc nb r(1) unfolding td_complete_task_def w'_def w3_def
    by (simp add: nw t1 Let_def td_unblock_dependent_tasks_def)
  have tk: "\<forall>k. map_of tasks2 k =
                 (if unblocks a tasks1 k
                  then map_option (\<lambda>t. t\<lparr>status := IN_PROGRESS\<rparr>) (map_of tasks1 k)
                  else map_of tasks1 k)"
    using r(3) unblocks_in_keys[of a tasks1] by auto
  have "tasks_file w' = Holds (tasks_to_json tasks2)" by (simp add: w'_def)
  moreover have "messages_are w' (ms @ new)"
    using r(5) by (simp add: messages_are_def w'_def)
  moreover have "map fst tasks2 = map fst tasks" using r(2) k1 by simp
  moreover have "map msg_view new = map (\<lambda>k. (''TD'', assignee tasks1 k, td_unblock_text k))
                             (filter (notified a tasks1) (map fst tasks))"
    using r(6) k1 by simp
  ultimately show ?thesis using run tk by blast
qed

lemma group_complete_task_run:
  assumes f: "tasks_file w = Holds (tasks_to_json tasks)"
    and a: "map_of tasks a = Some ta" and nc: "status ta \<noteq> COMPLETED" and nb: "status ta \<noteq> BLOCKED"
    and own: "assigned_to ta = Some name"
    and d: "distinct (map fst tasks)" and ms: "messages_are w ms"
    and t1: "tasks1 = AList.update a (ta\<lparr>status := COMPLETED, completed_at := Some (clock w (ticks w))\<rparr>) tasks"
  shows "\<exists>tasks2 w' new cm. group_complete_task name a w = (Inr True, w')
           \<and> tasks_file w' = Holds (tasks_to_json tasks2)
           \<and> map fst tasks2 = map fst tasks
           \<and> (\<forall>k. map_of tasks2 k =
                 (if unblocks a tasks1 k
                  then map_option (\<lambda>t. t\<lparr>status := IN_PROGRESS\<rparr>) (map_of tasks1 k)
                  else map_of tasks1 k))
           \<and> messages_are w' (ms @ new @ [cm])
           \<and> msg_view cm = (name, ''TD'', ''Task '' @ a @ '' completed'')
           \<and> map msg_view new =
               map (\<lambda>k. (name, assignee tasks1 k, group_unblock_text a k))
                 (filter (notified a tasks1) (map fst tasks))"
proof -
  define w1 where "w1 = snd (now w)"
  have k1: "map fst tasks1 = map fst tasks" using a t1 by (simp add: update_keys_present)
  have lt: "load_tasks w = (Inr tasks, w)" using f by (rule load_tasks_saved)
  have nw: "now w = (clock w (ticks w), w1)" by (simp add: now_def w1_def)
  have d1: "distinct (map fst tasks1)" using d k1 by simp
  have m1: "messages_are w1 ms"
    using ms by (simp add: messages_are_def w1_def now_def)
  from unblock_loop_run[OF d1 m1, of name "group_unblock_text a" a tasks1]
  obtain tasks2 w2 new where
    r: "unblock_loop name (group_unblock_text a) a (map fst tasks1) tasks1 w1 = (Inr (), tasks2, w2)"
       "map fst tasks2 = map fst tasks1"
       "\<forall>k. map_of tasks2 k =
                 (if k \<in> set (map fst tasks1) \<and> unblocks a tasks1 k
                  then map_option (\<lambda>t. t\<lparr>status := IN_PROGRESS\<rparr>) (map_of tasks1 k)
                  else map_of tasks1 k)"
       "tasks_file w2 = tasks_file w1" "messages_are w2 (ms @ new)"
       "map msg_view new = map (\<lambda>k. (name, assignee tasks1 k, group_unblock_text a k))
                             (filter (notified a tasks1) (map fst tasks1))"
    by blast
  define w4 where "w4 = append_log name (''Completed task '' @ a) (save_tasks tasks2 w2)"
  have m4: "messages_are w4 (ms @ new)"
    using r(5) by (simp add: messages_are_def w4_def)
  obtain cm w5 where cm: "new_Message name ''TD'' (''Task '' @ a @ '' completed'') w4 = (cm, w5)"
    by (cases "new_Message name ''TD'' (''Task '' @ a @ '' completed'') w4") auto
  from send_ok[OF m4 cm, of "''TD''" "name @ '' completed task: '' @ a"]
  obtain w7 where s:
    "append_message cm w5 = (Inr (), w5\<lparr>messages_file := Holds (messages_to_json ((ms @ new) @ [cm]))\<rparr>)"
    "tmux_notify ''TD'' (name @ '' completed task: '' @ a)
       (w5\<lparr>messages_file := Holds (messages_to_json ((ms @ new) @ [cm]))\<rparr>) = (Inr (), w7)"
    "messages_are w7 ((ms @ new) @ [cm])" "tasks_file w7 = tasks_file w4"
    "msg_view cm = (name, ''TD'', ''Task '' @ a @ '' completed'')"
    by blast
  define w' where "w' = py_print (''Task '' @ a @ '' marked as completed'') w7"
  have run: "group_complete_task name a w = (Inr True, w')"
    using a nc nb own cm r(1) s(1,2) unfolding group_complete_task_def w'_def w4_def
    by (simp add: lt nw t1 Let_def group_unblock_dependent_tasks_def)
  have tk: "\<forall>k. map_of tasks2 k =
                 (if unblocks a tasks1 k
                  then map_option (\<lambda>t. t\<lparr>status := IN_PROGRESS\<rparr>) (map_of tasks1 k)
                  else map_of tasks1 k)"
    using r(3) unblocks_in_keys[of a tasks1] by auto
  have "tasks_file w' = Holds (tasks_to_json tasks2)"
    using s(4) by (simp add: w'_def w4_def)
  moreover have "messages_are w' (ms @ new @ [cm])"
    using s(3) by (simp add: messages_are_def w'_def)
  moreover have "map fst tasks2 = map fst tasks" using r(2) k1 by simp
  moreover have "map msg_view new = map (\<lambda>k. (name, assignee tasks1 k, group_unblock_text a k))
                             (filter (notified a tasks1) (map fst tasks))"
    using r(6) k1 by simp
  ultimately show ?thesis using run tk s(5) by blast
qed

section \<open>The cascade of a completion\<close>










section \<open>Completing a task that is blocked or completed\<close>

text \<open>
  Claim C4, as the code has it. \<open>complete_task\<close> on a task whose status is \<open>BLOCKED\<close>
  fails and changes nothing: it returns \<open>False\<close>, the dict of the \<open>TechDirector\<close> and every
  file stay as they were, the world differs from the one before in its \<open>stdout\<close> only.
  \<open>TechDirector.complete_task\<close> prints "Cannot complete task ... - it is blocked by
  dependencies". \<open>Group.complete_task\<close> checks the ownership before the status: called by
  the group the task is assigned to it prints the same error, called by any other group
  it prints "Task ... is not assigned to ..." instead.
\<close>

theorem complete_blocked_ownership_first:
  assumes "map_of tasks task_id = Some task" and "status task = BLOCKED"
  shows "td_complete_task task_id tasks w =
           (Inr False, tasks,
            w\<lparr>stdout := stdout w @ [''Error: Cannot complete task '' @ task_id
                                      @ '' - it is blocked by dependencies'']\<rparr>)
         \<and> (tasks_file w = Holds (tasks_to_json tasks) \<longrightarrow>
              group_complete_task name task_id w =
                (Inr False,
                 w\<lparr>stdout := stdout w @
                     [if assigned_to task = Some name
                      then ''Error: Cannot complete task '' @ task_id
                             @ '' - it is blocked by dependencies''
                      else ''Error: Task '' @ task_id @ '' is not assigned to '' @ name]\<rparr>))"
  using assms
  by (simp add: td_complete_task_def group_complete_task_def load_tasks_saved py_print_def)

theorem complete_blocked_ownership_first_witness:
  "td_complete_task ''t2'' blocked_store
       (fresh_world\<lparr>tasks_file := Holds (tasks_to_json blocked_store)\<rparr>) =
     (Inr False, blocked_store,
      fresh_world\<lparr>tasks_file := Holds (tasks_to_json blocked_store),
                   stdout := [''Error: Cannot complete task t2 - it is blocked by dependencies'']\<rparr>)
   \<and> group_complete_task ''beta'' ''t2''
       (fresh_world\<lparr>tasks_file := Holds (tasks_to_json blocked_store)\<rparr>) =
     (Inr False,
      fresh_world\<lparr>tasks_file := Holds (tasks_to_json blocked_store),
                   stdout := [''Error: Cannot complete task t2 - it is blocked by dependencies'']\<rparr>)"
  using complete_blocked_ownership_first [of blocked_store "''t2''"
          "example_task ''t2'' [''t1''] (Some ''beta'') BLOCKED"
          "fresh_world\<lparr>tasks_file := Holds (tasks_to_json blocked_store)\<rparr>" "''beta''"]
  by (simp add: blocked_store_def example_task_def fresh_world_def)

text \<open>
  Claim C4 as the specification words it fails on a group that does not own the task:
  \<open>t2\<close> is \<open>BLOCKED\<close> and assigned to \<open>beta\<close>, and \<open>Group("alpha").complete_task("t2")\<close>
  reports that the task is not assigned to \<open>alpha\<close>, not that it is blocked.
\<close>

theorem complete_blocked_counterexample:
  "map_option status (map_of blocked_store ''t2'') = Some BLOCKED
   \<and> group_complete_task ''alpha'' ''t2''
       (fresh_world\<lparr>tasks_file := Holds (tasks_to_json blocked_store)\<rparr>) =
     (Inr False,
      fresh_world\<lparr>tasks_file := Holds (tasks_to_json blocked_store),
                   stdout := [''Error: Task t2 is not assigned to alpha'']\<rparr>)"
proof -
  have "load_tasks (fresh_world\<lparr>tasks_file := Holds (tasks_to_json blocked_store)\<rparr>) =
          (Inr blocked_store, fresh_world\<lparr>tasks_file := Holds (tasks_to_json blocked_store)\<rparr>)"
    by (rule load_tasks_saved) simp
  then show ?thesis
    by (simp add: group_complete_task_def py_print_def blocked_store_def example_task_def
                  fresh_world_def)
qed

text \<open>
  Claim C6, as the code has it. \<open>complete_task\<close> on a task whose status is \<open>COMPLETED\<close>
  changes nothing: no task is touched, so \<open>completed_at\<close> keeps the value of the first
  completion, nothing is written, and the world differs from the one before in its
  \<open>stdout\<close> only. \<open>TechDirector.complete_task\<close> returns \<open>True\<close> and prints the warning
  "... is already completed", and so does \<open>Group.complete_task\<close> called by the group the
  task is assigned to; called by any other group it returns \<open>False\<close> and prints
  "Task ... is not assigned to ...", since it checks the ownership first.
\<close>

theorem complete_completed_ownership_first:
  assumes "map_of tasks task_id = Some task" and "status task = COMPLETED"
  shows "td_complete_task task_id tasks w =
           (Inr True, tasks,
            w\<lparr>stdout := stdout w @ [''Warning: Task '' @ task_id @ '' is already completed'']\<rparr>)
         \<and> (tasks_file w = Holds (tasks_to_json tasks) \<longrightarrow>
              group_complete_task name task_id w =
                (if assigned_to task = Some name
                 then (Inr True,
                       w\<lparr>stdout := stdout w
                            @ [''Warning: Task '' @ task_id @ '' is already completed'']\<rparr>)
                 else (Inr False,
                       w\<lparr>stdout := stdout w
                            @ [''Error: Task '' @ task_id @ '' is not assigned to '' @ name]\<rparr>)))"
  using assms
  by (simp add: td_complete_task_def group_complete_task_def load_tasks_saved py_print_def)

theorem complete_completed_ownership_first_witness:
  "td_complete_task ''t1'' completed_store
       (fresh_world\<lparr>tasks_file := Holds (tasks_to_json completed_store)\<rparr>) =
     (Inr True, completed_store,
      fresh_world\<lparr>tasks_file := Holds (tasks_to_json completed_store),
                   stdout := [''Warning: Task t1 is already completed'']\<rparr>)
   \<and> group_complete_task ''alpha'' ''t1''
       (fresh_world\<lparr>tasks_file := Holds (tasks_to_json completed_store)\<rparr>) =
     (Inr True,
      fresh_world\<lparr>tasks_file := Holds (tasks_to_json completed_store),
                   stdout := [''Warning: Task t1 is already completed'']\<rparr>)"
  using complete_completed_ownership_first [of completed_store "''t1''"
          "(example_task ''t1'' [] (Some ''alpha'') COMPLETED)\<lparr>completed_at := Some ''2024-01-02T00:00:00''\<rparr>"
          "fresh_world\<lparr>tasks_file := Holds (tasks_to_json completed_store)\<rparr>" "''alpha''"]
  by (simp add: completed_store_def example_task_def fresh_world_def)

text \<open>
  Claim C6 as the specification words it fails on a group that does not own the task:
  \<open>t1\<close> is \<open>COMPLETED\<close> and assigned to \<open>alpha\<close>, and \<open>Group("beta").complete_task("t1")\<close>
  returns \<open>False\<close> with the error that the task is not assigned to \<open>beta\<close>.
\<close>

theorem complete_completed_counterexample:
  "map_option status (map_of completed_store ''t1'') = Some COMPLETED
   \<and> group_complete_task ''beta'' ''t1''
       (fresh_world\<lparr>tasks_file := Holds (tasks_to_json completed_store)\<rparr>) =
     (Inr False,
      fresh_world\<lparr>tasks_file := Holds (tasks_to_json completed_store),
                   stdout := [''Error: Task t1 is not assigned to beta'']\<rparr>)"
proof -
  have "load_tasks (fresh_world\<lparr>tasks_file := Holds (tasks_to_json completed_store)\<rparr>) =
          (Inr completed_store, fresh_world\<lparr>tasks_file := Holds (tasks_to_json completed_store)\<rparr>)"
    by (rule load_tasks_saved) simp
  then show ?thesis
    by (simp add: group_complete_task_def py_print_def completed_store_def example_task_def
                  fresh_world_def)
qed

section \<open>Loading files\<close>

text \<open>
  What \<open>load_*\<close> catch: when the file is no JSON document (\<open>json.JSONDecodeError\<close>) or
  cannot be read (\<open>OSError\<close>), the load function returns the empty collection and prints
  a diagnostic; when the file is absent it returns the empty collection and prints
  nothing.
\<close>

lemma load_caught_gives_empty:
  "load_tasks (w\<lparr>tasks_file := Corrupted e\<rparr>) =
     (Inr [], w\<lparr>tasks_file := Corrupted e,
                stdout := stdout w @ [''Error: Corrupted tasks file. '' @ e]\<rparr>)
   \<and> load_tasks (w\<lparr>tasks_file := Unreadable e\<rparr>) =
     (Inr [], w\<lparr>tasks_file := Unreadable e,
                stdout := stdout w @ [''Error loading tasks: '' @ e]\<rparr>)
   \<and> load_tasks (w\<lparr>tasks_file := Absent\<rparr>) = (Inr [], w\<lparr>tasks_file := Absent\<rparr>)
   \<and> load_messages (w\<lparr>messages_file := Corrupted e\<rparr>) =
     (Inr [], w\<lparr>messages_file := Corrupted e,
                stdout := stdout w @ [''Error: Corrupted messages file. '' @ e]\<rparr>)
   \<and> load_messages (w\<lparr>messages_file := Unreadable e\<rparr>) =
     (Inr [], w\<lparr>messages_file := Unreadable e,
                stdout := stdout w @ [''Error loading messages: '' @ e]\<rparr>)
   \<and> load_messages (w\<lparr>messages_file := Absent\<rparr>) = (Inr [], w\<lparr>messages_file := Absent\<rparr>)
   \<and> load_groups (w\<lparr>groups_file := Corrupted e\<rparr>) =
     (Inr (JObj []), w\<lparr>groups_file := Corrupted e,
                       stdout := stdout w @ [''Error: Corrupted groups file. '' @ e]\<rparr>)
   \<and> load_groups (w\<lparr>groups_file := Unreadable e\<rparr>) =
     (Inr (JObj []), w\<lparr>groups_file := Unreadable e,
                       stdout := stdout w @ [''Error loading groups: '' @ e]\<rparr>)
   \<and> load_groups (w\<lparr>groups_file := Absent\<rparr>) = (Inr (JObj []), w\<lparr>groups_file := Absent\<rparr>)"
  by (simp add: load_tasks_def load_messages_def load_groups_def py_print_def)

text \<open>
  Claim C9 fails on the code. A file that is a JSON document of another shape than
  \<open>save_*\<close> writes, or whose bytes are not UTF-8, does not load either, and for it the
  load functions neither return the empty collection nor print a diagnostic: the
  exception is none of those they catch and leaves the method. A tasks file holding
  \<open>[]\<close> raises \<open>AttributeError\<close>; a task whose status is \<open>"done"\<close> raises \<open>ValueError\<close>; a
  messages file holding \<open>{"a": null}\<close> raises \<open>TypeError\<close>; bytes that are not UTF-8 raise
  \<open>UnicodeDecodeError\<close> in all three; and \<open>load_groups\<close> returns a document that is no
  dict as it is (here \<open>null\<close>), without a diagnostic.
\<close>

theorem load_raises_uncaught:
  "load_tasks (w\<lparr>tasks_file := Holds (JArr [])\<rparr>) =
     (Inl (Raised AttributeError), w\<lparr>tasks_file := Holds (JArr [])\<rparr>)
   \<and> fst (load_tasks (w\<lparr>tasks_file :=
            Holds (JObj [(''t1'', JObj [(''id'', JStr ''t1''), (''title'', JStr ''T''),
                                        (''description'', JStr ''D''),
                                        (''status'', JStr ''done'')])])\<rparr>)) =
     Inl (Raised (ValueError None))
   \<and> load_tasks (w\<lparr>tasks_file := Undecodable\<rparr>) =
     (Inl (Raised UnicodeDecodeError), w\<lparr>tasks_file := Undecodable\<rparr>)
   \<and> load_messages (w\<lparr>messages_file := Holds (JObj [(''a'', JNull)])\<rparr>) =
     (Inl (Raised TypeError), w\<lparr>messages_file := Holds (JObj [(''a'', JNull)])\<rparr>)
   \<and> load_messages (w\<lparr>messages_file := Undecodable\<rparr>) =
     (Inl (Raised UnicodeDecodeError), w\<lparr>messages_file := Undecodable\<rparr>)
   \<and> load_groups (w\<lparr>groups_file := Undecodable\<rparr>) =
     (Inl (Raised UnicodeDecodeError), w\<lparr>groups_file := Undecodable\<rparr>)
   \<and> load_groups (w\<lparr>groups_file := Holds JNull\<rparr>) =
     (Inr JNull, w\<lparr>groups_file := Holds JNull\<rparr>)"
  by (simp add: load_tasks_def load_messages_def load_groups_def Task_from_dict_def
                Message_from_dict_def TaskStatus_of_def)

section \<open>A chain of blocked tasks\<close>





section \<open>The order of the cascade\<close>

lemma notified_assignee:
  assumes a: "map_of tasks a = Some ta"
    and t1: "tasks1 = AList.update a (ta\<lparr>status := COMPLETED, completed_at := c\<rparr>) tasks"
  shows "map (\<lambda>k. (ag, assignee tasks1 k, tx k)) (filter (notified a tasks1) ks)
         = map (\<lambda>k. (ag, assignee tasks k, tx k)) (filter (notified a tasks1) ks)"
proof (intro map_cong refl)
  fix k assume "k \<in> set (filter (notified a tasks1) ks)"
  then have "notified a tasks1 k" by simp
  then have "k \<noteq> a"
    by (auto simp: notified_def unblocks_def t1 update_conv' split: option.splits)
  then show "(ag, assignee tasks1 k, tx k) = (ag, assignee tasks k, tx k)"
    by (simp add: t1 assignee_update)
qed

text \<open>
  Claim C7, as the code has it. The cascade runs over the tasks in the order of the dict,
  which is the order in which the tasks were created (and which the tasks file keeps):
  the unblock notices that one call of \<open>complete_task(a)\<close> appends to the messages are
  those for the tasks it unblocks and that have an assignee, one each, in the order of
  their keys in the dict. The order is determined by the store, but it is not the
  ascending order of the ids. This holds for \<open>TechDirector.complete_task\<close> and for
  \<open>Group.complete_task\<close> called by the group \<open>a\<close> is assigned to, whose notices are
  followed by its report to \<open>TD\<close>.
\<close>

theorem cascade_notifies_in_dict_order:
  assumes d: "distinct (map fst tasks)"
    and a: "map_of tasks a = Some ta"
    and sa: "status ta = PENDING \<or> status ta = IN_PROGRESS"
    and ms: "messages_are w ms"
  shows "(\<exists>tasks2 w' new.
            td_complete_task a tasks w = (Inr True, tasks2, w')
            \<and> messages_are w' (ms @ new)
            \<and> map msg_view new =
                map (\<lambda>k. (''TD'', assignee tasks k, td_unblock_text k))
                  (filter (notified a
                             (AList.update a
                                (ta\<lparr>status := COMPLETED,
                                    completed_at := Some (clock w (ticks w))\<rparr>) tasks))
                     (map fst tasks)))
         \<and> (tasks_file w = Holds (tasks_to_json tasks) \<and> assigned_to ta = Some name \<longrightarrow>
            (\<exists>w' new cm.
               group_complete_task name a w = (Inr True, w')
               \<and> messages_are w' (ms @ new @ [cm])
               \<and> msg_view cm = (name, ''TD'', ''Task '' @ a @ '' completed'')
               \<and> map msg_view new =
                   map (\<lambda>k. (name, assignee tasks k, group_unblock_text a k))
                     (filter (notified a
                                (AList.update a
                                   (ta\<lparr>status := COMPLETED,
                                       completed_at := Some (clock w (ticks w))\<rparr>) tasks))
                        (map fst tasks))))"
proof -
  define tasks1 where
    "tasks1 = AList.update a (ta\<lparr>status := COMPLETED, completed_at := Some (clock w (ticks w))\<rparr>) tasks"
  have nc: "status ta \<noteq> COMPLETED" and nb: "status ta \<noteq> BLOCKED" using sa by auto
  have td: "\<exists>tasks2 w' new.
            td_complete_task a tasks w = (Inr True, tasks2, w')
            \<and> messages_are w' (ms @ new)
            \<and> map msg_view new =
                map (\<lambda>k. (''TD'', assignee tasks k, td_unblock_text k))
                  (filter (notified a tasks1) (map fst tasks))"
  proof -
    from td_complete_task_run[OF a nc nb d ms tasks1_def] obtain tasks2 w' new where
      r: "td_complete_task a tasks w = (Inr True, tasks2, w')"
         "messages_are w' (ms @ new)"
         "map msg_view new = map (\<lambda>k. (''TD'', assignee tasks1 k, td_unblock_text k))
                               (filter (notified a tasks1) (map fst tasks))"
      by blast
    have v: "map msg_view new = map (\<lambda>k. (''TD'', assignee tasks k, td_unblock_text k))
                                  (filter (notified a tasks1) (map fst tasks))"
      unfolding r(3) by (rule notified_assignee[OF a tasks1_def])
    show ?thesis by (intro exI conjI) (rule r(1), rule r(2), rule v)
  qed
  have gr: "\<exists>w' new cm.
               group_complete_task name a w = (Inr True, w')
               \<and> messages_are w' (ms @ new @ [cm])
               \<and> msg_view cm = (name, ''TD'', ''Task '' @ a @ '' completed'')
               \<and> map msg_view new =
                   map (\<lambda>k. (name, assignee tasks k, group_unblock_text a k))
                     (filter (notified a tasks1) (map fst tasks))"
    if f: "tasks_file w = Holds (tasks_to_json tasks)" and own: "assigned_to ta = Some name"
  proof -
    from group_complete_task_run[OF f a nc nb own d ms tasks1_def] obtain w' new cm where
      r: "group_complete_task name a w = (Inr True, w')"
         "messages_are w' (ms @ new @ [cm])"
         "msg_view cm = (name, ''TD'', ''Task '' @ a @ '' completed'')"
         "map msg_view new = map (\<lambda>k. (name, assignee tasks1 k, group_unblock_text a k))
                               (filter (notified a tasks1) (map fst tasks))"
      by blast
    have v: "map msg_view new = map (\<lambda>k. (name, assignee tasks k, group_unblock_text a k))
                                  (filter (notified a tasks1) (map fst tasks))"
      unfolding r(4) by (rule notified_assignee[OF a tasks1_def])
    show ?thesis by (intro exI conjI) (rule r(1), rule r(2), rule r(3), rule v)
  qed
  show ?thesis using td gr unfolding tasks1_def by blast
qed

theorem cascade_notifies_in_dict_order_witness:
  "(\<exists>tasks2 w' new.
      td_complete_task ''t1'' blocked_store (store_world blocked_store) = (Inr True, tasks2, w')
      \<and> messages_are w' new
      \<and> map msg_view new = [(''TD'', ''beta'', td_unblock_text ''t2'')])
   \<and> (\<exists>w' new cm.
         group_complete_task ''alpha'' ''t1'' (store_world blocked_store) = (Inr True, w')
         \<and> messages_are w' (new @ [cm])
         \<and> msg_view cm = (''alpha'', ''TD'', ''Task '' @ ''t1'' @ '' completed'')
         \<and> map msg_view new = [(''alpha'', ''beta'', group_unblock_text ''t1'' ''t2'')])"
proof -
  have d: "distinct (map fst blocked_store)" by (simp add: blocked_store_def)
  have a: "map_of blocked_store ''t1'' = Some (example_task ''t1'' [] (Some ''alpha'') IN_PROGRESS)"
    by (simp add: blocked_store_def)
  have sa: "status (example_task ''t1'' [] (Some ''alpha'') IN_PROGRESS) = PENDING
            \<or> status (example_task ''t1'' [] (Some ''alpha'') IN_PROGRESS) = IN_PROGRESS"
    by (simp add: example_task_def)
  have ms: "messages_are (store_world blocked_store) []"
    by (simp add: messages_are_def store_world_def fresh_world_def)
  have f: "tasks_file (store_world blocked_store) = Holds (tasks_to_json blocked_store)
           \<and> assigned_to (example_task ''t1'' [] (Some ''alpha'') IN_PROGRESS) = Some ''alpha''"
    by (simp add: store_world_def example_task_def)
  have fl: "filter (notified ''t1''
                     (AList.update ''t1''
                        ((example_task ''t1'' [] (Some ''alpha'') IN_PROGRESS)
                           \<lparr>status := COMPLETED,
                            completed_at := Some (clock (store_world blocked_store)
                                                    (ticks (store_world blocked_store)))\<rparr>)
                        blocked_store))
              (map fst blocked_store) = [''t2'']"
    by (simp add: blocked_store_def example_task_def notified_def unblocks_def
                  check_dependencies_def truthy_def)
  have as: "assignee blocked_store ''t2'' = ''beta''"
    by (simp add: assignee_def blocked_store_def example_task_def)
  show ?thesis
    using cascade_notifies_in_dict_order [OF d a sa ms, of "''alpha''"] f
    unfolding fl by (simp add: as)
qed

text \<open>
  Claim C7 as the specification words it fails: in a store whose tasks were created in
  the order \<open>t1\<close>, \<open>t3\<close>, \<open>t2\<close>, with \<open>t3\<close> and \<open>t2\<close> blocked on \<open>t1\<close>, completing \<open>t1\<close>
  sends the notice for \<open>t3\<close> before the one for \<open>t2\<close>, though \<open>"t2" < "t3"\<close>.
\<close>

theorem cascade_order_counterexample:
  "str_less ''t2'' ''t3''
   \<and> (\<exists>tasks2 w' new.
        td_complete_task ''t1'' order_store (store_world order_store) = (Inr True, tasks2, w')
        \<and> messages_are w' new
        \<and> map msg_view new = [(''TD'', ''beta'', td_unblock_text ''t3''),
                               (''TD'', ''beta'', td_unblock_text ''t2'')])"
proof -
  define tasks1 where
    "tasks1 = AList.update ''t1''
                ((example_task ''t1'' [] (Some ''alpha'') IN_PROGRESS)
                   \<lparr>status := COMPLETED,
                    completed_at := Some (clock (store_world order_store)
                                            (ticks (store_world order_store)))\<rparr>)
                order_store"
  have d: "distinct (map fst order_store)" by (simp add: order_store_def)
  have a: "map_of order_store ''t1'' = Some (example_task ''t1'' [] (Some ''alpha'') IN_PROGRESS)"
    by (simp add: order_store_def)
  have nc: "status (example_task ''t1'' [] (Some ''alpha'') IN_PROGRESS) \<noteq> COMPLETED"
    and nb: "status (example_task ''t1'' [] (Some ''alpha'') IN_PROGRESS) \<noteq> BLOCKED"
    by (simp_all add: example_task_def)
  have ms: "messages_are (store_world order_store) []"
    by (simp add: messages_are_def store_world_def fresh_world_def)
  have fl: "filter (notified ''t1'' tasks1) (map fst order_store) = [''t3'', ''t2'']"
    by (simp add: tasks1_def order_store_def example_task_def notified_def unblocks_def
                  check_dependencies_def truthy_def)
  have as: "assignee tasks1 ''t3'' = ''beta''" "assignee tasks1 ''t2'' = ''beta''"
    by (simp_all add: tasks1_def assignee_def order_store_def example_task_def)
  from td_complete_task_run[OF a nc nb d ms tasks1_def] obtain tasks2 w' new where
    r: "td_complete_task ''t1'' order_store (store_world order_store) = (Inr True, tasks2, w')"
       "messages_are w' ([] @ new)"
       "map msg_view new = map (\<lambda>k. (''TD'', assignee tasks1 k, td_unblock_text k))
                             (filter (notified ''t1'' tasks1) (map fst order_store))"
    by blast
  have v: "map msg_view new = [(''TD'', ''beta'', td_unblock_text ''t3''),
                               (''TD'', ''beta'', td_unblock_text ''t2'')]"
    using r(3) unfolding fl by (simp add: as)
  have m: "messages_are w' new" using r(2) by simp
  have "\<exists>tasks2 w' new.
        td_complete_task ''t1'' order_store (store_world order_store) = (Inr True, tasks2, w')
        \<and> messages_are w' new
        \<and> map msg_view new = [(''TD'', ''beta'', td_unblock_text ''t3''),
                               (''TD'', ''beta'', td_unblock_text ''t2'')]"
    by (intro exI conjI) (rule r(1), rule m, rule v)
  moreover have "str_less ''t2'' ''t3''" by simp
  ultimately show ?thesis by blast
qed

section \<open>Assigning a task\<close>


lemma validate_id_ok:
  assumes "re_match_id s"
  shows "validate_id s name w = (True, w)"
proof -
  have "\<not> re_match_id []" by (simp add: re_match_id_def)
  then have "s \<noteq> []" using assms by auto
  then show ?thesis using assms by (simp add: validate_id_def)
qed




section \<open>The status changes of assigning and completing\<close>




section \<open>Creating a task\<close>

text \<open>
  Claim C5 fails on the code. \<open>validate_id\<close> tests the id with
  \<open>re.match(r'^[a-zA-Z0-9_-]+$', id_str)\<close>, and \<open>$\<close> also matches before a newline at the
  end of the string: the id \<open>"t1\n"\<close> has a character that is none of the letters, digits,
  underscore and hyphen the error message and the docstring allow, and \<open>create_task\<close>
  accepts it, stores the task under that key and returns \<open>True\<close>.
\<close>

theorem create_task_accepts_trailing_newline:
  "\<not> list_all id_char (''t1'' @ [CHR 0x0A])
   \<and> td_create_task (''t1'' @ [CHR 0x0A]) ''T'' ''D'' None [] fresh_world =
       (True,
        [(''t1'' @ [CHR 0x0A],
          \<lparr>id_task = ''t1'' @ [CHR 0x0A], title = ''T'', description = ''D'',
           assigned_to = None, status = PENDING, dependencies = [],
           created_at = ''2024-01-01T00:00:00'', completed_at = None\<rparr>)],
        fresh_world
          \<lparr>tasks_file :=
             Holds (tasks_to_json
                      [(''t1'' @ [CHR 0x0A],
                        \<lparr>id_task = ''t1'' @ [CHR 0x0A], title = ''T'', description = ''D'',
                         assigned_to = None, status = PENDING, dependencies = [],
                         created_at = ''2024-01-01T00:00:00'', completed_at = None\<rparr>)]),
           logs := (\<lambda>_. [])(''TD'' := [''[2024-01-01T00:00:00] Created task ''
                                         @ ''t1'' @ [CHR 0x0A] @ '': T'']),
           stdout := [''Task '' @ ''t1'' @ [CHR 0x0A] @ '' created successfully''],
           ticks := 2\<rparr>)"
  by (simp add: td_create_task_def validate_id_def re_match_id_def id_char_def now_def
                save_tasks_def append_log_def py_print_def fresh_world_def Let_def)

section \<open>Two processes creating tasks\<close>

lemma update_new: "map_of al k = None \<Longrightarrow> AList.update k v al = al @ [(k, v)]"
  by (induction al) (auto split: if_splits)

lemma td_create_task_run:
  assumes v: "re_match_id task_id" and n: "map_of tasks task_id = None"
  shows "\<exists>w'. td_create_task task_id ttl descr (Some []) tasks w =
                 (True, tasks @ [(task_id, created_task task_id ttl descr (clock w (ticks w)))], w')
              \<and> tasks_file w' =
                  Holds (tasks_to_json
                           (tasks @ [(task_id, created_task task_id ttl descr (clock w (ticks w)))]))
              \<and> clock w' = clock w \<and> ticks w' = ticks w + 2"
proof -
  have vi: "validate_id task_id ''Task ID'' w = (True, w)" using v by (rule validate_id_ok)
  show ?thesis
    unfolding td_create_task_def
    by (simp add: vi n update_new created_task_def now_def Let_def save_tasks_def append_log_def
                  py_print_def)
qed

text \<open>
  Claim C8, as the code has it. No operation takes a lock: a process loads the tasks
  when it constructs its \<open>TechDirector\<close>, and \<open>create_task\<close> saves that dict with the new
  task added. For a tasks file that holds the dict \<open>tasks\<close> and two valid, distinct ids
  that are not in it: when the two \<open>create-task\<close> processes run one after the other,
  the tasks file holds \<open>tasks\<close> followed by both new tasks; when both processes have
  loaded before either saves, the second save overwrites the first, and the tasks file
  holds \<open>tasks\<close> followed by the second task only: the first creation is lost.
\<close>

theorem creates_persist_only_in_turn:
  assumes f: "tasks_file w = Holds (tasks_to_json tasks)"
    and va: "re_match_id a" and vb: "re_match_id b" and ab: "a \<noteq> b"
    and na: "map_of tasks a = None" and nb: "map_of tasks b = None"
  shows "tasks_file (two_creates_in_turn a b ttl descr w) =
           Holds (tasks_to_json
                    (tasks @ [(a, created_task a ttl descr (clock w (ticks w))),
                              (b, created_task b ttl descr (clock w (ticks w + 2)))]))
         \<and> tasks_file (two_creates_interleaved a b ttl descr w) =
           Holds (tasks_to_json
                    (tasks @ [(b, created_task b ttl descr (clock w (ticks w + 2)))]))"
proof -
  have l0: "td_init w = (Inr tasks, w)" using f by (simp add: td_init_def load_tasks_saved)
  obtain w2 where c1:
    "td_create_task a ttl descr (Some []) tasks w =
       (True, tasks @ [(a, created_task a ttl descr (clock w (ticks w)))], w2)"
    "tasks_file w2 =
       Holds (tasks_to_json (tasks @ [(a, created_task a ttl descr (clock w (ticks w)))]))"
    "clock w2 = clock w" "ticks w2 = ticks w + 2"
    using td_create_task_run[OF va na, of ttl descr w] by blast
  have l2: "td_init w2 =
              (Inr (tasks @ [(a, created_task a ttl descr (clock w (ticks w)))]), w2)"
    using c1(2) by (simp add: td_init_def load_tasks_saved)
  have nb2: "map_of (tasks @ [(a, created_task a ttl descr (clock w (ticks w)))]) b = None"
    using nb ab by (simp add: map_add_def)
  obtain w4 where c2:
    "td_create_task b ttl descr (Some [])
       (tasks @ [(a, created_task a ttl descr (clock w (ticks w)))]) w2 =
       (True,
        (tasks @ [(a, created_task a ttl descr (clock w (ticks w)))])
          @ [(b, created_task b ttl descr (clock w2 (ticks w2)))], w4)"
    "tasks_file w4 =
       Holds (tasks_to_json
                ((tasks @ [(a, created_task a ttl descr (clock w (ticks w)))])
                   @ [(b, created_task b ttl descr (clock w2 (ticks w2)))]))"
    using td_create_task_run[OF vb nb2, of ttl descr w2] by blast
  have turn: "tasks_file (two_creates_in_turn a b ttl descr w) =
           Holds (tasks_to_json
                    (tasks @ [(a, created_task a ttl descr (clock w (ticks w))),
                              (b, created_task b ttl descr (clock w (ticks w + 2)))]))"
    using c2(2) by (simp add: two_creates_in_turn_def l0 c1(1) l2 c2(1) c1(3,4))
  obtain w5 where c3:
    "td_create_task b ttl descr (Some []) tasks w2 =
       (True, tasks @ [(b, created_task b ttl descr (clock w2 (ticks w2)))], w5)"
    "tasks_file w5 =
       Holds (tasks_to_json (tasks @ [(b, created_task b ttl descr (clock w2 (ticks w2)))]))"
    using td_create_task_run[OF vb nb, of ttl descr w2] by blast
  have inter: "tasks_file (two_creates_interleaved a b ttl descr w) =
           Holds (tasks_to_json
                    (tasks @ [(b, created_task b ttl descr (clock w (ticks w + 2)))]))"
    using c3(2) by (simp add: two_creates_interleaved_def l0 c1(1) c3(1) c1(3,4))
  show ?thesis by (rule conjI) (rule turn, rule inter)
qed

theorem creates_persist_only_in_turn_witness:
  "tasks_file (two_creates_in_turn ''a'' ''b'' ''T'' ''D'' (store_world [])) =
     Holds (tasks_to_json
              [(''a'', created_task ''a'' ''T'' ''D'' ''2024-01-01T00:00:00''),
               (''b'', created_task ''b'' ''T'' ''D'' ''2024-01-01T00:00:00'')])
   \<and> tasks_file (two_creates_interleaved ''a'' ''b'' ''T'' ''D'' (store_world [])) =
     Holds (tasks_to_json [(''b'', created_task ''b'' ''T'' ''D'' ''2024-01-01T00:00:00'')])"
proof -
  have f: "tasks_file (store_world []) = Holds (tasks_to_json [])"
    by (simp add: store_world_def)
  have va: "re_match_id ''a''" and vb: "re_match_id ''b''"
    by (simp_all add: re_match_id_def id_char_def)
  have ab: "''a'' \<noteq> ''b''" by simp
  have na: "map_of ([] :: task_dict) ''a'' = None" and nb: "map_of ([] :: task_dict) ''b'' = None"
    by simp_all
  have c: "clock (store_world []) n = ''2024-01-01T00:00:00''" for n
    by (simp add: store_world_def fresh_world_def)
  show ?thesis
    using creates_persist_only_in_turn [OF f va vb ab na nb, of "''T''" "''D''"]
    by (simp add: c)
qed

text \<open>
  Claim C8 as the specification words it fails: there is no lock, and when two
  \<open>create-task\<close> processes for the ids \<open>a\<close> and \<open>b\<close> both load the empty store of a fresh
  state directory before either saves, the tasks file holds \<open>b\<close> only in the end.
\<close>

theorem concurrent_create_counterexample:
  "fst (load_tasks (two_creates_interleaved ''a'' ''b'' ''T'' ''D'' fresh_world)) =
     Inr [(''b'', created_task ''b'' ''T'' ''D'' ''2024-01-01T00:00:00'')]"
proof -
  have l0: "td_init fresh_world = (Inr [], fresh_world)"
    by (simp add: td_init_def load_tasks_def fresh_world_def)
  have va: "re_match_id ''a''" and vb: "re_match_id ''b''"
    by (simp_all add: re_match_id_def id_char_def)
  obtain w2 where c1:
    "td_create_task ''a'' ''T'' ''D'' (Some []) [] fresh_world =
       (True, [] @ [(''a'', created_task ''a'' ''T'' ''D'' (clock fresh_world (ticks fresh_world)))], w2)"
    "clock w2 = clock fresh_world"
    using td_create_task_run[OF va, of "[]" "''T''" "''D''" fresh_world] by auto
  obtain w5 where c3:
    "td_create_task ''b'' ''T'' ''D'' (Some []) [] w2 =
       (True, [] @ [(''b'', created_task ''b'' ''T'' ''D'' (clock w2 (ticks w2)))], w5)"
    "tasks_file w5 =
       Holds (tasks_to_json ([] @ [(''b'', created_task ''b'' ''T'' ''D'' (clock w2 (ticks w2)))]))"
    using td_create_task_run[OF vb, of "[]" "''T''" "''D''" w2] by auto
  have e: "two_creates_interleaved ''a'' ''b'' ''T'' ''D'' fresh_world = w5"
    by (simp add: two_creates_interleaved_def l0 c1(1) c3(1))
  have c: "clock w2 (ticks w2) = ''2024-01-01T00:00:00''"
    by (simp add: c1(2) fresh_world_def)
  show ?thesis
    unfolding e using load_tasks_saved[OF c3(2)] by (simp add: c)
qed

end
